theory Spec2Isabelle
  imports
    Complex_Main
    "HOL-Library.Word"
    "HOL-Library.Multiset"
    "HOL-Library.Char_ord"
    "HOL-Library.List_Lexorder"
begin

section \<open>Audio2Face to Unreal: the stream aggregator of \<^verbatim>\<open>audio2face_unreal.py\<close>\<close>

text \<open>
  The development embeds the methods of \<^verbatim>\<open>Audio2FaceUnrealProcessor\<close> that build the
  request stream, consume the response stream, export the metadata record and drive a
  batch over a workspace. Exceptions are values of type \<open>error\<close>; a function that may
  raise returns \<open>error + 'a\<close>. The \<^verbatim>\<open>options\<close> argument is passed around by the source
  but never read, so the model leaves it out.
\<close>

subsection \<open>Exceptions\<close>

datatype error =
    ValueError string
  | IndexError string
  | ZeroDivisionError string
  | OSError string
  | AioRpcError string

subsection \<open>Outbound messages\<close>

type_synonym byte = "8 word"

datatype audio_format = AUDIO_FORMAT_PCM

record audio_header =
  audio_format :: audio_format
  channel_count :: nat
  samples_per_second :: nat
  bits_per_sample :: nat

record face_parameters =
  float_params :: "(string \<times> real) list"

record audio_stream_header =
  audio_header :: audio_header
  face_params :: face_parameters

text \<open>The three variants of \<^verbatim>\<open>controller_pb2.AudioStream\<close> that the source constructs.\<close>

datatype audio_stream =
    Audio_stream_header audio_stream_header
  | Audio_with_emotion "byte list"
  | End_of_audio

definition chunk_size :: nat where
  "chunk_size = 4096"

definition stream_header :: audio_stream_header where
  "stream_header =
     \<lparr>audio_header =
        \<lparr>audio_format = AUDIO_FORMAT_PCM, channel_count = 1,
         samples_per_second = 16000, bits_per_sample = 16\<rparr>,
      face_params =
        \<lparr>float_params =
           [(''upperFaceStrength'', 1), (''lowerFaceStrength'', 12 / 10),
            (''faceMaskLevel'', 6 / 10), (''skinStrength'', 1),
            (''eyelidOpenOffset'', 6 / 100), (''lipOpenOffset'', - (2 / 100))]\<rparr>\<rparr>"

text \<open>
  The loop \<^verbatim>\<open>for i in range(0, len(audio_data), chunk_size)\<close>: the slice
  \<^verbatim>\<open>audio_data[i:i + chunk_size]\<close> is \<open>take chunk_size (drop i audio_data)\<close>, and each
  message is appended to \<^verbatim>\<open>requests\<close>.
\<close>

function add_chunks :: "nat \<Rightarrow> byte list \<Rightarrow> audio_stream list \<Rightarrow> audio_stream list" where
  "add_chunks i audio_data requests =
     (if i < length audio_data
      then add_chunks (i + chunk_size) audio_data
             (requests @ [Audio_with_emotion (take chunk_size (drop i audio_data))])
      else requests)"
  by pat_completeness auto
termination
  by (relation "measure (\<lambda>(i, audio_data, requests). length audio_data - i)")
     (auto simp: chunk_size_def)

declare add_chunks.simps [simp del]

definition build_requests :: "byte list \<Rightarrow> audio_stream list" where
  "build_requests audio_data =
     (let requests = [];
          requests = requests @ [Audio_stream_header stream_header];
          requests = add_chunks 0 audio_data requests;
          requests = requests @ [End_of_audio]
      in requests)"

text \<open>The payloads of the audio-chunk messages of a request sequence, in order.\<close>

fun chunk_payloads :: "audio_stream list \<Rightarrow> byte list list" where
  "chunk_payloads [] = []"
| "chunk_payloads (Audio_with_emotion chunk # ms) = chunk # chunk_payloads ms"
| "chunk_payloads (_ # ms) = chunk_payloads ms"

subsection \<open>Inbound messages\<close>

text \<open>
  A response of the service, as far as the source reads it. Every field that the source
  probes before use (\<^verbatim>\<open>HasField\<close>, \<^verbatim>\<open>hasattr\<close>, \<^verbatim>\<open>getattr\<close> with a default) is
  optional here; \<open>None\<close> is the unset or missing field. Time codes and weights are
  floating-point numbers in the source and real numbers in the model.
\<close>

datatype blend_shape_weights_entry =
  Blend_shape_weights_entry (entry_time_code: "real option") (entry_values: "real list option")

datatype skel_animation_msg =
  Skel_animation (blend_shape_weights: "blend_shape_weights_entry list option")

datatype animation_data_msg =
  Animation_data (skel_animation: "skel_animation_msg option")

datatype response =
  Response (response_animation_data: "animation_data_msg option")

text \<open>
  What the asynchronous iteration over the response stream delivers: a response, or the
  \<^verbatim>\<open>grpc.aio.AioRpcError\<close> that ends it. A stream is the finite list of these events
  (the call carries a timeout).
\<close>

datatype stream_event =
    StreamResponse response
  | StreamFailure string

subsection \<open>Frames and results\<close>

record frame_data =
  time_code :: real
  blendshape_weights :: "real list"

text \<open>
  The dictionary returned by the two processing paths. Only the fallback path sets the key
  \<^verbatim>\<open>warning\<close>. The source stores \<^verbatim>\<open>str(wav_file)\<close> under \<^verbatim>\<open>source_file\<close> and parses it
  back with \<^verbatim>\<open>Path(...)\<close> in the metadata export; the model keeps the path.
\<close>

type_synonym path = "string list"

record animation_result =
  source_file :: path
  frames :: "frame_data list"
  duration :: real
  frame_count :: nat
  warning :: "string option"

text \<open>
  The body of \<^verbatim>\<open>if response.HasField('animation_data')\<close> up to the construction of
  \<^verbatim>\<open>frame_data\<close>: the two local variables start as \<^verbatim>\<open>[]\<close> and \<^verbatim>\<open>0\<close> and are
  overwritten only on the innermost path.
\<close>

definition extract_frame :: "animation_data_msg \<Rightarrow> frame_data" where
  "extract_frame ad =
     (case skel_animation ad of
        None \<Rightarrow> \<lparr>time_code = 0, blendshape_weights = []\<rparr>
      | Some skel \<Rightarrow>
          (case blend_shape_weights skel of
             None \<Rightarrow> \<lparr>time_code = 0, blendshape_weights = []\<rparr>
           | Some blend_shape_weights_list \<Rightarrow>
               (case blend_shape_weights_list of
                  [] \<Rightarrow> \<lparr>time_code = 0, blendshape_weights = []\<rparr>
                | entry # _ \<Rightarrow>
                    \<lparr>time_code = (case entry_time_code entry of None \<Rightarrow> 0 | Some t \<Rightarrow> t),
                     blendshape_weights =
                       (case entry_values entry of None \<Rightarrow> [] | Some vs \<Rightarrow> vs)\<rparr>)))"

text \<open>
  The loop \<^verbatim>\<open>async for response in response_stream\<close> inside the \<^verbatim>\<open>try\<close>: an
  \<^verbatim>\<open>AioRpcError\<close> is logged and raised again, so the frames collected so far are lost.
\<close>

fun collect_frames :: "stream_event list \<Rightarrow> frame_data list \<Rightarrow> error + frame_data list" where
  "collect_frames [] animation_frames = Inr animation_frames"
| "collect_frames (StreamFailure e # _) animation_frames = Inl (AioRpcError e)"
| "collect_frames (StreamResponse response # rest) animation_frames =
     (case response_animation_data response of
        None \<Rightarrow> collect_frames rest animation_frames
      | Some ad \<Rightarrow> collect_frames rest (animation_frames @ [extract_frame ad]))"

text \<open>Python's \<^verbatim>\<open>max\<close> over a sequence: it raises on the empty one and keeps the first
  largest item.\<close>

fun py_max :: "real list \<Rightarrow> error + real" where
  "py_max [] = Inl (ValueError ''max() arg is an empty sequence'')"
| "py_max (x # xs) = Inr (fold (\<lambda>item current. if current < item then item else current) xs x)"

text \<open>The dictionary built by the \<^verbatim>\<open>return\<close> statement of \<^verbatim>\<open>_process_with_nvidia_sdk\<close>.\<close>

definition animation_result_of :: "path \<Rightarrow> frame_data list \<Rightarrow> error + animation_result" where
  "animation_result_of wav_file animation_frames =
     (case (if animation_frames \<noteq> [] then py_max (map time_code animation_frames) else Inr 0) of
        Inl e \<Rightarrow> Inl e
      | Inr d \<Rightarrow>
          Inr \<lparr>source_file = wav_file, frames = animation_frames, duration = d,
               frame_count = length animation_frames, warning = None\<rparr>)"

subsection \<open>The environment\<close>

text \<open>
  Everything the processor obtains from outside: the module flag
  \<^verbatim>\<open>NVIDIA_SDK_AVAILABLE\<close>, the file system, the service behind
  \<^verbatim>\<open>self.stub.ProcessAudioStream\<close> (the events it answers to a request sequence), and
  whether each export's \<^verbatim>\<open>try\<close> block runs to its end.
\<close>

record env =
  sdk_available :: bool
  dir_exists :: "path \<Rightarrow> bool"
  glob_wav :: "path \<Rightarrow> path list"
  mkdir_ok :: "path \<Rightarrow> bool"
  read_bytes :: "path \<Rightarrow> error + byte list"
  process_audio_stream :: "audio_stream list \<Rightarrow> stream_event list"
  usd_export_ok :: "animation_result \<Rightarrow> path \<Rightarrow> bool"
  json_export_ok :: "animation_result \<Rightarrow> path \<Rightarrow> bool"
  metadata_write_ok :: "path \<Rightarrow> bool"

subsection \<open>The two processing paths\<close>

definition process_with_nvidia_sdk :: "env \<Rightarrow> path \<Rightarrow> error + animation_result" where
  "process_with_nvidia_sdk env wav_file =
     (case read_bytes env wav_file of
        Inl e \<Rightarrow> Inl e
      | Inr audio_data \<Rightarrow>
          (let requests = build_requests audio_data in
           case collect_frames (process_audio_stream env requests) [] of
             Inl e \<Rightarrow> Inl e
           | Inr animation_frames \<Rightarrow> animation_result_of wav_file animation_frames))"

definition process_with_custom_grpc :: "path \<Rightarrow> animation_result" where
  "process_with_custom_grpc wav_file =
     \<lparr>source_file = wav_file, frames = [], duration = 0, frame_count = 0,
      warning = Some ''Custom gRPC not implemented - install nvidia_ace SDK''\<rparr>"

subsection \<open>Paths\<close>

text \<open>
  A path is the list of its parts, as \<^verbatim>\<open>pathlib\<close> holds it; \<^verbatim>\<open>p / name\<close> appends a part,
  and two paths compare as their part lists do, part by part and each part character by
  character. \<^verbatim>\<open>name\<close> is the last part; \<^verbatim>\<open>stem\<close> cuts the name at its last dot unless
  that dot is the first or the last character.
\<close>

definition path_name :: "path \<Rightarrow> string" where
  "path_name p = (if p = [] then [] else last p)"

definition rfind :: "string \<Rightarrow> char \<Rightarrow> nat option" where
  "rfind s c =
     (case filter (\<lambda>i. s ! i = c) (rev [0..<length s]) of [] \<Rightarrow> None | i # _ \<Rightarrow> Some i)"

definition path_stem :: "path \<Rightarrow> string" where
  "path_stem p =
     (let name = path_name p in
      case rfind name (CHR ''.'') of
        None \<Rightarrow> name
      | Some i \<Rightarrow> if 0 < i \<and> i < length name - 1 then take i name else name)"

subsection \<open>Exports\<close>

record export_info =
  usd_file :: string
  json_file :: string
  recommended_workflow :: string
  metahuman_compatible :: bool

text \<open>The record written by \<^verbatim>\<open>_export_metadata\<close>; its key \<^verbatim>\<open>frame_count\<close> is the field
  \<open>metadata_frame_count\<close>.\<close>

record metadata =
  animation_name :: string
  source_audio :: string
  duration_seconds :: real
  metadata_frame_count :: nat
  frame_rate :: real
  blendshape_count :: nat
  export_info :: export_info

text \<open>Python's \<^verbatim>\<open>/\<close> and \<^verbatim>\<open>xs[0]\<close>: both raise where HOL's \<open>/\<close> and \<open>hd\<close> return an
  arbitrary value.\<close>

definition py_truediv :: "real \<Rightarrow> real \<Rightarrow> error + real" where
  "py_truediv a b = (if b = 0 then Inl (ZeroDivisionError ''division by zero'') else Inr (a / b))"

definition py_first :: "'a list \<Rightarrow> error + 'a" where
  "py_first xs = (case xs of [] \<Rightarrow> Inl (IndexError ''list index out of range'') | x # _ \<Rightarrow> Inr x)"

text \<open>The dictionary literal \<^verbatim>\<open>metadata = {...}\<close> of \<^verbatim>\<open>_export_metadata\<close>, evaluated in
  the order of its keys.\<close>

definition build_metadata :: "animation_result \<Rightarrow> string \<Rightarrow> error + metadata" where
  "build_metadata animation_data base_name =
     (case (if duration animation_data > 0
            then py_truediv (real (frame_count animation_data)) (duration animation_data)
            else Inr 0) of
        Inl e \<Rightarrow> Inl e
      | Inr rate \<Rightarrow>
          (case (if frames animation_data \<noteq> []
                 then (case py_first (frames animation_data) of
                         Inl e \<Rightarrow> Inl e
                       | Inr f \<Rightarrow> Inr (length (blendshape_weights f)))
                 else Inr 0) of
             Inl e \<Rightarrow> Inl e
           | Inr shapes \<Rightarrow>
               Inr \<lparr>animation_name = base_name,
                    source_audio = path_name (source_file animation_data),
                    duration_seconds = duration animation_data,
                    metadata_frame_count = frame_count animation_data,
                    frame_rate = rate,
                    blendshape_count = shapes,
                    export_info =
                      \<lparr>usd_file = base_name @ ''_animation.usd'',
                       json_file = base_name @ ''_animation.json'',
                       recommended_workflow =
                         ''Import USD into Unreal or use JSON with custom Python script'',
                       metahuman_compatible = True\<rparr>\<rparr>))"

text \<open>
  Each export wraps its whole body in \<^verbatim>\<open>try\<close> and returns \<^verbatim>\<open>None\<close> on any exception,
  the written path otherwise. What the scene library and the JSON writer do is outside
  the source; the environment says whether they succeed.
\<close>

definition export_as_usd :: "env \<Rightarrow> animation_result \<Rightarrow> string \<Rightarrow> path \<Rightarrow> path option" where
  "export_as_usd env animation_data base_name export_dir =
     (let usd_path = export_dir @ [base_name @ ''_animation.usd''] in
      if usd_export_ok env animation_data usd_path then Some usd_path else None)"

definition export_as_json :: "env \<Rightarrow> animation_result \<Rightarrow> string \<Rightarrow> path \<Rightarrow> path option" where
  "export_as_json env animation_data base_name export_dir =
     (let json_path = export_dir @ [base_name @ ''_animation.json''] in
      if json_export_ok env animation_data json_path then Some json_path else None)"

definition export_metadata :: "env \<Rightarrow> animation_result \<Rightarrow> string \<Rightarrow> path \<Rightarrow> path option" where
  "export_metadata env animation_data base_name export_dir =
     (let meta_path = export_dir @ [base_name @ ''_metadata.json''] in
      case build_metadata animation_data base_name of
        Inl e \<Rightarrow> None
      | Inr m \<Rightarrow> if metadata_write_ok env meta_path then Some meta_path else None)"

definition generate_animation_assets ::
  "env \<Rightarrow> animation_result \<Rightarrow> string \<Rightarrow> path \<Rightarrow> path list" where
  "generate_animation_assets env animation_data base_name export_dir =
     (let generated_files = [];
          generated_files =
            (case export_as_usd env animation_data base_name export_dir of
               Some usd \<Rightarrow> generated_files @ [usd] | None \<Rightarrow> generated_files);
          generated_files =
            (case export_as_json env animation_data base_name export_dir of
               Some json \<Rightarrow> generated_files @ [json] | None \<Rightarrow> generated_files);
          generated_files =
            (case export_metadata env animation_data base_name export_dir of
               Some meta \<Rightarrow> generated_files @ [meta] | None \<Rightarrow> generated_files)
      in generated_files)"

subsection \<open>The batch over a workspace\<close>

text \<open>The records that \<^verbatim>\<open>process_workspace\<close> itself hands to the logger. The records of
  the functions it calls do not influence any returned value and are not modelled.\<close>

datatype log_record =
    Info_found nat
  | Info_processing nat nat string
  | Error_failed_to_process string error
  | Info_generated nat

text \<open>The body of the \<^verbatim>\<open>try\<close> statement in the loop, up to the value of \<^verbatim>\<open>asset_files\<close>.\<close>

definition process_file :: "env \<Rightarrow> path \<Rightarrow> path \<Rightarrow> error + path list" where
  "process_file env export_dir wav_file =
     (case (if sdk_available env
            then process_with_nvidia_sdk env wav_file
            else Inr (process_with_custom_grpc wav_file)) of
        Inl e \<Rightarrow> Inl e
      | Inr animation_data \<Rightarrow>
          Inr (generate_animation_assets env animation_data (path_stem wav_file) export_dir))"

text \<open>
  The loop \<^verbatim>\<open>for i, wav_file in enumerate(wav_files, 1)\<close>, with the number \<open>n\<close> of files,
  the counter \<open>i\<close>, and the state it updates: \<^verbatim>\<open>generated_assets\<close> and the logged records.
\<close>

fun process_files ::
  "env \<Rightarrow> path \<Rightarrow> nat \<Rightarrow> nat \<Rightarrow> path list \<Rightarrow> path list \<times> log_record list
     \<Rightarrow> path list \<times> log_record list" where
  "process_files env export_dir n i [] (generated_assets, logged) = (generated_assets, logged)"
| "process_files env export_dir n i (wav_file # rest) (generated_assets, logged) =
     (let logged = logged @ [Info_processing i n (path_name wav_file)] in
      case process_file env export_dir wav_file of
        Inr asset_files \<Rightarrow>
          process_files env export_dir n (i + 1) rest (generated_assets @ asset_files, logged)
      | Inl e \<Rightarrow>
          process_files env export_dir n (i + 1) rest
            (generated_assets, logged @ [Error_failed_to_process (path_name wav_file) e]))"

text \<open>
  \<^verbatim>\<open>process_workspace\<close> returns the assets or raises, and leaves a log either way. It
  raises \<^verbatim>\<open>ValueError\<close> when the audio directory is missing or holds no WAV file (the
  path in the message is left out), and whatever \<^verbatim>\<open>mkdir\<close> raises for the export
  directory. \<^verbatim>\<open>wav_files.sort()\<close> sorts paths; sorting is determined by the order alone,
  so \<open>sort\<close> gives the list that Python's sort gives.
\<close>

definition process_workspace :: "env \<Rightarrow> path \<Rightarrow> (error + path list) \<times> log_record list" where
  "process_workspace env workspace_path =
     (let audio_dir = workspace_path @ [''audio''] in
      if \<not> dir_exists env audio_dir then (Inl (ValueError ''Audio directory not found''), [])
      else
        let wav_files = glob_wav env audio_dir in
        if wav_files = [] then (Inl (ValueError ''No WAV files found''), [])
        else
          let wav_files = sort wav_files;
              logged = [Info_found (length wav_files)];
              export_dir = workspace_path @ [''unreal_assets'']
          in
          if \<not> mkdir_ok env export_dir then (Inl (OSError ''mkdir''), logged)
          else
            let (generated_assets, logged) =
                  process_files env export_dir (length wav_files) 1 wav_files ([], logged)
            in (Inr generated_assets, logged @ [Info_generated (length generated_assets)]))"

text \<open>The file names in the order in which the loop announced them: what a reader of the
  log sees of the processing order.\<close>

fun processing_order :: "log_record list \<Rightarrow> string list" where
  "processing_order [] = []"
| "processing_order (Info_processing i n name # logged) = name # processing_order logged"
| "processing_order (_ # logged) = processing_order logged"

subsection \<open>A concrete workspace\<close>

text \<open>
  Sample responses, and an environment with three files in its audio directory,
  enumerated out of order. The service fails in the middle of the stream for the audio of
  \<^verbatim>\<open>b.wav\<close> and answers four responses, one of them without animation data, otherwise.
\<close>

definition silent_response :: response where
  "silent_response = Response None"

definition no_skel_response :: response where
  "no_skel_response = Response (Some (Animation_data None))"

definition empty_weights_response :: response where
  "empty_weights_response = Response (Some (Animation_data (Some (Skel_animation (Some [])))))"

definition weights_response :: "real \<Rightarrow> real list \<Rightarrow> response" where
  "weights_response t vs =
     Response (Some (Animation_data (Some (Skel_animation
       (Some [Blend_shape_weights_entry (Some t) (Some vs)])))))"

definition two_entry_response :: response where
  "two_entry_response =
     Response (Some (Animation_data (Some (Skel_animation
       (Some [Blend_shape_weights_entry (Some 2) (Some [1 / 2, 1 / 4]),
              Blend_shape_weights_entry (Some 9) (Some [1])])))))"

definition unset_fields_response :: response where
  "unset_fields_response =
     Response (Some (Animation_data (Some (Skel_animation
       (Some [Blend_shape_weights_entry None None])))))"

definition demo_env :: env where
  "demo_env =
     \<lparr>sdk_available = True,
      dir_exists = (\<lambda>_. True),
      glob_wav = (\<lambda>audio_dir. [audio_dir @ [''c.wav''], audio_dir @ [''a.wav''],
                               audio_dir @ [''b.wav'']]),
      mkdir_ok = (\<lambda>_. True),
      read_bytes = (\<lambda>wav_file. if path_name wav_file = ''b.wav'' then Inr [2] else Inr [1]),
      process_audio_stream =
        (\<lambda>requests.
           if chunk_payloads requests = [[2]]
           then [StreamResponse (weights_response 0 [1 / 2]), StreamFailure ''UNAVAILABLE'']
           else [StreamResponse (weights_response 0 [1 / 2, 1 / 4]),
                 StreamResponse silent_response,
                 StreamResponse (weights_response 3 [1, 0]),
                 StreamResponse (weights_response 1 [0, 0])]),
      usd_export_ok = (\<lambda>_ _. True),
      json_export_ok = (\<lambda>_ _. True),
      metadata_write_ok = (\<lambda>_. True)\<rparr>"

text \<open>The same workspace with empty audio files and a service that answers one response
  to each request message it receives; and the workspace without the SDK.\<close>

definition empty_audio_env :: env where
  "empty_audio_env =
     demo_env\<lparr>read_bytes := \<lambda>_. Inr [],
              process_audio_stream :=
                \<lambda>requests. map (\<lambda>_. StreamResponse (weights_response 1 [1])) requests\<rparr>"

definition no_sdk_env :: env where
  "no_sdk_env = demo_env\<lparr>sdk_available := False\<rparr>"

section \<open>Properties\<close>

subsection \<open>The request sequence\<close>

lemma ceil_div_nat: "nat \<lceil>real n / 4096\<rceil> = (n + 4095) div 4096"
proof -
  have "\<lceil>real n / 4096\<rceil> = \<lceil>(of_int (int n) :: real) / of_int 4096\<rceil>" by simp
  also have "\<dots> = - (- int n div 4096)" by (rule ceiling_divide_eq_div)
  also have "\<dots> = (int n + 4095) div 4096"
  proof -
    have "int n = 4096 * (int n div 4096) + int n mod 4096" by simp
    show ?thesis by linarith
  qed
  finally have "\<lceil>real n / 4096\<rceil> = int ((n + 4095) div 4096)" by (simp add: zdiv_int)
  then show ?thesis by simp
qed

lemma chunk_count_step:
  fixes n :: nat
  assumes "0 < n"
  shows "Suc ((n - 4096 + 4095) div 4096) = (n + 4095) div 4096"
proof (cases "4096 \<le> n")
  case True
  then obtain m where "n = m + 4096" by (metis le_add_diff_inverse2)
  then show ?thesis by simp
next
  case False
  with assms show ?thesis by (simp add: div_eq_dividend_iff Suc_eq_plus1 flip: One_nat_def)
qed

lemma add_chunks_spec:
  "\<exists>cs. add_chunks i audio_data requests = requests @ map Audio_with_emotion cs
      \<and> concat cs = drop i audio_data
      \<and> length cs = (length audio_data - i + 4095) div 4096
      \<and> (\<forall>c \<in> set (butlast cs). length c = chunk_size)
      \<and> (\<forall>c \<in> set cs. c \<noteq> [] \<and> length c \<le> chunk_size)"
proof (induction i audio_data requests rule: add_chunks.induct)
  case (1 i audio_data requests)
  show ?case
  proof (cases "i < length audio_data")
    case False
    then have "add_chunks i audio_data requests = requests @ map Audio_with_emotion []"
      by (simp add: add_chunks.simps)
    moreover from False have "concat [] = drop i audio_data" by simp
    moreover from False have "length ([]::byte list list) = (length audio_data - i + 4095) div 4096"
      by simp
    ultimately show ?thesis by (intro exI[of _ "[]"]) simp
  next
    case True
    define c where "c = take chunk_size (drop i audio_data)"
    from 1[OF True] obtain cs where
      eq: "add_chunks (i + chunk_size) audio_data (requests @ [Audio_with_emotion c])
            = (requests @ [Audio_with_emotion c]) @ map Audio_with_emotion cs"
      and cat: "concat cs = drop (i + chunk_size) audio_data"
      and len: "length cs = (length audio_data - (i + chunk_size) + 4095) div 4096"
      and full: "\<forall>c \<in> set (butlast cs). length c = chunk_size"
      and ne: "\<forall>c \<in> set cs. c \<noteq> [] \<and> length c \<le> chunk_size"
      unfolding c_def by blast
    have a: "add_chunks i audio_data requests = requests @ map Audio_with_emotion (c # cs)"
      using True eq by (subst add_chunks.simps) (simp add: c_def)
    have "drop i audio_data = c @ drop chunk_size (drop i audio_data)"
      unfolding c_def by (rule append_take_drop_id [symmetric])
    also have "drop chunk_size (drop i audio_data) = concat cs"
      by (simp add: cat add.commute)
    finally have b: "concat (c # cs) = drop i audio_data" by simp
    have "length audio_data - (i + chunk_size) = length audio_data - i - 4096"
      by (simp add: chunk_size_def)
    with len have "length cs = (length audio_data - i - 4096 + 4095) div 4096" by simp
    moreover from True have "0 < length audio_data - i" by simp
    ultimately have d: "length (c # cs) = (length audio_data - i + 4095) div 4096"
      using chunk_count_step[of "length audio_data - i"] by simp
    have cne: "c \<noteq> []" "length c \<le> chunk_size"
      using True by (simp_all add: c_def chunk_size_def)
    have e: "\<forall>x \<in> set (c # cs). x \<noteq> [] \<and> length x \<le> chunk_size"
      using ne cne by simp
    have f: "\<forall>x \<in> set (butlast (c # cs)). length x = chunk_size"
    proof (cases "cs = []")
      case True then show ?thesis by simp
    next
      case False
      have "i + chunk_size < length audio_data"
      proof (rule ccontr)
        assume "\<not> i + chunk_size < length audio_data"
        then have "drop (i + chunk_size) audio_data = []" by simp
        with cat have "concat cs = []" by simp
        with ne False show False by (cases cs) auto
      qed
      then have "length c = chunk_size" by (simp add: c_def)
      with full False show ?thesis by simp
    qed
    from a b d e f show ?thesis by blast
  qed
qed

lemma chunk_payloads_chunks:
  "chunk_payloads (map Audio_with_emotion cs @ rest) = cs @ chunk_payloads rest"
  by (induction cs) simp_all

lemma build_requests_spec:
  "\<exists>cs. build_requests audio_data =
          Audio_stream_header stream_header # map Audio_with_emotion cs @ [End_of_audio]
      \<and> chunk_payloads (build_requests audio_data) = cs
      \<and> concat cs = audio_data
      \<and> length cs = (length audio_data + 4095) div 4096
      \<and> (\<forall>c \<in> set (butlast cs). length c = chunk_size)
      \<and> (\<forall>c \<in> set cs. c \<noteq> [] \<and> length c \<le> chunk_size)"
proof -
  from add_chunks_spec[of 0 audio_data "[Audio_stream_header stream_header]"]
  obtain cs where
    eq: "add_chunks 0 audio_data [Audio_stream_header stream_header]
           = [Audio_stream_header stream_header] @ map Audio_with_emotion cs"
    and rest: "concat cs = audio_data" "length cs = (length audio_data + 4095) div 4096"
      "\<forall>c \<in> set (butlast cs). length c = chunk_size"
      "\<forall>c \<in> set cs. c \<noteq> [] \<and> length c \<le> chunk_size"
    by auto
  have b: "build_requests audio_data =
          Audio_stream_header stream_header # map Audio_with_emotion cs @ [End_of_audio]"
    by (simp add: build_requests_def eq)
  have "chunk_payloads (build_requests audio_data) = cs"
    by (simp add: b chunk_payloads_chunks)
  with b rest show ?thesis by blast
qed

text \<open>
  Claim C1. For an audio buffer of length \<open>L\<close> the request sequence is the header message,
  then the audio-chunk messages, then the end-of-stream marker; there are
  \<open>\<lceil>L / 4096\<rceil>\<close> chunks, their payloads concatenated in order are the buffer, every chunk but
  the last has 4096 bytes, and no chunk is empty or longer than 4096 bytes.
\<close>

theorem build_requests_header_chunks_end:
  "build_requests audio_data =
     Audio_stream_header stream_header
       # map Audio_with_emotion (chunk_payloads (build_requests audio_data)) @ [End_of_audio]
   \<and> length (chunk_payloads (build_requests audio_data)) = nat \<lceil>real (length audio_data) / 4096\<rceil>
   \<and> concat (chunk_payloads (build_requests audio_data)) = audio_data
   \<and> (\<forall>c \<in> set (butlast (chunk_payloads (build_requests audio_data))). length c = 4096)
   \<and> (\<forall>c \<in> set (chunk_payloads (build_requests audio_data)). c \<noteq> [] \<and> length c \<le> 4096)"
  using build_requests_spec[of audio_data]
  by (auto simp: ceil_div_nat chunk_size_def)

text \<open>A buffer of 4097 bytes: two chunks, of 4096 bytes and of one byte.\<close>

theorem build_requests_header_chunks_end_witness:
  "map length (chunk_payloads (build_requests (replicate 4097 0))) = [4096, 1]"
proof -
  have gen: "map length (chunk_payloads (build_requests audio)) = [4096, 1]"
    if L: "length audio = 4097" for audio :: "byte list"
  proof -
    let ?cs = "chunk_payloads (build_requests audio)"
    note t = build_requests_header_chunks_end[of audio]
    have "nat \<lceil>real (length audio) / 4096\<rceil> = 2" unfolding L by simp
    with t have "length ?cs = Suc (Suc 0)" by simp
    then obtain a b where cs: "?cs = [a, b]"
      by (auto simp: length_Suc_conv)
    from t have "\<forall>c \<in> set (butlast ?cs). length c = 4096" by blast
    then have a: "length a = 4096" unfolding cs by simp
    from t have "concat ?cs = audio" by blast
    then have "length (concat ?cs) = 4097" using L by simp
    then have "length a + length b = 4097" unfolding cs by simp
    with a have "length b = 1" by simp
    with a show ?thesis unfolding cs by simp
  qed
  show ?thesis by (rule gen) simp
qed


lemma build_requests_empty:
  "build_requests [] = [Audio_stream_header stream_header, End_of_audio]"
  by (simp add: build_requests_def add_chunks.simps)

lemma build_requests_short:
  assumes "audio_data \<noteq> []" "length audio_data \<le> 4096"
  shows "build_requests audio_data =
           [Audio_stream_header stream_header, Audio_with_emotion audio_data, End_of_audio]"
proof -
  have "add_chunks 4096 audio_data rs = rs" for rs
    using assms by (subst add_chunks.simps) simp
  moreover have "add_chunks 0 audio_data rs =
      add_chunks 4096 audio_data (rs @ [Audio_with_emotion audio_data])" for rs
    using assms by (subst add_chunks.simps) (simp add: chunk_size_def)
  ultimately show ?thesis by (simp add: build_requests_def)
qed

subsection \<open>The response stream\<close>

lemma collect_frames_responses:
  "collect_frames (map StreamResponse responses) animation_frames =
     Inr (animation_frames @
          List.map_filter (\<lambda>r. map_option extract_frame (response_animation_data r)) responses)"
  by (induction responses arbitrary: animation_frames)
     (auto simp: map_filter_simps split: option.splits)

lemma collect_frames_failure:
  "collect_frames (map StreamResponse responses @ StreamFailure e # rest) animation_frames =
     Inl (AioRpcError e)"
  by (induction responses arbitrary: animation_frames) (auto split: option.splits)

lemma py_max_Max: "py_max (x # xs) = Inr (Max (set (x # xs)))"
proof -
  have "(\<lambda>item current. if current < item then item else current) = (max :: real \<Rightarrow> real \<Rightarrow> real)"
    by (auto simp: max_def fun_eq_iff)
  then have "py_max (x # xs) = Inr (fold max xs x)" by simp
  also have "fold max xs x = Max (set (x # xs))" by (rule Max.set_eq_fold [symmetric])
  finally show ?thesis .
qed

lemma length_map_filter:
  "length (List.map_filter f xs) = length (filter (\<lambda>x. f x \<noteq> None) xs)"
  by (induction xs) (auto simp: map_filter_simps split: option.splits)

text \<open>
  Claim C2. A response that carries animation data whose blend-shape-weights collection
  is absent (no skeletal animation, or no collection in it) or empty appends the frame
  with time code 0 and no weights, and the loop goes on with the rest of the stream; when
  only responses follow, the aggregation ends normally with that frame in its place.
\<close>

theorem empty_weights_yield_empty_frame:
  assumes "response_animation_data response = Some ad"
    and "skel_animation ad = None
         \<or> (\<exists>skel. skel_animation ad = Some skel
               \<and> (blend_shape_weights skel = None \<or> blend_shape_weights skel = Some []))"
  shows "collect_frames (StreamResponse response # rest) animation_frames =
           collect_frames rest (animation_frames @ [\<lparr>time_code = 0, blendshape_weights = []\<rparr>])
       \<and> (\<exists>more. collect_frames (StreamResponse response # map StreamResponse responses)
                    animation_frames =
                  Inr (animation_frames @ \<lparr>time_code = 0, blendshape_weights = []\<rparr> # more))"
proof -
  from assms(2) have "extract_frame ad = \<lparr>time_code = 0, blendshape_weights = []\<rparr>"
    by (auto simp: extract_frame_def)
  with assms(1) show ?thesis
    by (simp add: collect_frames_responses)
qed

text \<open>A response without skeletal animation and one with an empty collection, followed by
  a regular one: three frames.\<close>

theorem empty_weights_yield_empty_frame_witness:
  "collect_frames
     [StreamResponse no_skel_response, StreamResponse empty_weights_response,
      StreamResponse (weights_response 5 [1])] [] =
   Inr [\<lparr>time_code = 0, blendshape_weights = []\<rparr>, \<lparr>time_code = 0, blendshape_weights = []\<rparr>,
        \<lparr>time_code = 5, blendshape_weights = [1]\<rparr>]"
proof -
  have h1: "response_animation_data no_skel_response = Some (Animation_data None)"
    by (simp add: no_skel_response_def)
  have h2: "response_animation_data empty_weights_response =
              Some (Animation_data (Some (Skel_animation (Some []))))"
    by (simp add: empty_weights_response_def)
  have "collect_frames [StreamResponse (weights_response 5 [1])] fs =
          Inr (fs @ [\<lparr>time_code = 5, blendshape_weights = [1]\<rparr>])" for fs
    by (simp add: weights_response_def extract_frame_def)
  then show ?thesis
    using empty_weights_yield_empty_frame [OF h1, of "[StreamResponse empty_weights_response,
                           StreamResponse (weights_response 5 [1])]" "[]" "[]"]
          empty_weights_yield_empty_frame [OF h2, of "[StreamResponse (weights_response 5 [1])]"
                "[\<lparr>time_code = 0, blendshape_weights = []\<rparr>]" "[]"]
    by simp
qed

text \<open>
  Claim C3. For a response whose collection is not empty the frame is read from the first
  entry alone: its time code, or 0 when unset, and its values, or none when unset. The
  entries after the first do not reach the frame.
\<close>

theorem first_entry_only:
  assumes "response_animation_data response = Some ad"
    and "skel_animation ad = Some skel"
    and "blend_shape_weights skel = Some (entry # others)"
  shows "collect_frames (StreamResponse response # rest) animation_frames =
           collect_frames rest
             (animation_frames @
                [\<lparr>time_code = (case entry_time_code entry of None \<Rightarrow> 0 | Some t \<Rightarrow> t),
                  blendshape_weights = (case entry_values entry of None \<Rightarrow> [] | Some vs \<Rightarrow> vs)\<rparr>])"
  using assms by (simp add: extract_frame_def)

text \<open>A response with two entries, then one whose only entry has both fields unset.\<close>

theorem first_entry_only_witness:
  "collect_frames [StreamResponse two_entry_response, StreamResponse unset_fields_response] [] =
     Inr [\<lparr>time_code = 2, blendshape_weights = [1 / 2, 1 / 4]\<rparr>,
          \<lparr>time_code = 0, blendshape_weights = []\<rparr>]"
proof -
  let ?e1 = "Blend_shape_weights_entry (Some 2) (Some [1 / 2, 1 / 4])"
  let ?e2 = "Blend_shape_weights_entry (Some 9) (Some [1])"
  let ?e3 = "Blend_shape_weights_entry None None"
  have h: "response_animation_data two_entry_response =
             Some (Animation_data (Some (Skel_animation (Some [?e1, ?e2]))))"
    by (simp add: two_entry_response_def)
  have g: "response_animation_data unset_fields_response =
             Some (Animation_data (Some (Skel_animation (Some [?e3]))))"
    by (simp add: unset_fields_response_def)
  have s: "skel_animation (Animation_data (Some (Skel_animation l))) = Some (Skel_animation l)"
    and b: "blend_shape_weights (Skel_animation (Some (x # xs))) = Some (x # xs)" for l x xs
    by simp_all
  note first = first_entry_only [OF h s b, of "[StreamResponse unset_fields_response]" "[]"]
  note second = first_entry_only [OF g s b, of "[]" "[\<lparr>time_code = 2, blendshape_weights = [1 / 2, 1 / 4]\<rparr>]"]
  show ?thesis unfolding first using second by simp
qed

text \<open>The sample workspace: what its files hold and what the service answers.\<close>

lemma demo_read_a: "read_bytes demo_env [''ws'', ''audio'', ''a.wav''] = Inr [1]"
  by (simp add: demo_env_def path_name_def)

lemma demo_read_b: "read_bytes demo_env [''ws'', ''audio'', ''b.wav''] = Inr [2]"
  by (simp add: demo_env_def path_name_def)

lemma demo_stream_ok:
  "process_audio_stream demo_env (build_requests [1]) =
     map StreamResponse
       [weights_response 0 [1 / 2, 1 / 4], silent_response, weights_response 3 [1, 0],
        weights_response 1 [0, 0]]"
  by (simp add: demo_env_def build_requests_short)

lemma demo_stream_fails:
  "process_audio_stream demo_env (build_requests [2]) =
     map StreamResponse [weights_response 0 [1 / 2]] @ StreamFailure ''UNAVAILABLE'' # []"
  by (simp add: demo_env_def build_requests_short)

text \<open>
  Claim C4. When the stream ends normally, the result holds one frame for each response
  with animation data, in arrival order; \<open>frame_count\<close> is the number of those
  responses and \<open>duration\<close> the largest time code among the frames, and both are 0
  when no response carries animation data.
\<close>

theorem result_counts_frames_and_max_time_code:
  assumes "read_bytes env wav_file = Inr audio_data"
    and "process_audio_stream env (build_requests audio_data) = map StreamResponse responses"
  shows "\<exists>result. process_with_nvidia_sdk env wav_file = Inr result
     \<and> frames result =
         List.map_filter (\<lambda>r. map_option extract_frame (response_animation_data r)) responses
     \<and> frame_count result = length (filter (\<lambda>r. response_animation_data r \<noteq> None) responses)
     \<and> duration result =
         (if frames result = [] then 0 else Max (set (map time_code (frames result))))
     \<and> (filter (\<lambda>r. response_animation_data r \<noteq> None) responses = []
          \<longrightarrow> frame_count result = 0 \<and> duration result = 0)"
proof -
  let ?fs = "List.map_filter (\<lambda>r. map_option extract_frame (response_animation_data r)) responses"
  let ?d = "if ?fs = [] then 0 else Max (set (map time_code ?fs))"
  have len: "length ?fs = length (filter (\<lambda>r. response_animation_data r \<noteq> None) responses)"
    by (simp add: length_map_filter)
  have res: "animation_result_of wav_file ?fs =
     Inr \<lparr>source_file = wav_file, frames = ?fs, duration = ?d, frame_count = length ?fs,
          warning = None\<rparr>"
  proof (cases ?fs)
    case Nil
    then show ?thesis by (simp add: animation_result_of_def)
  next
    case (Cons f fs')
    then show ?thesis
      using py_max_Max[of "time_code f" "map time_code fs'"]
      by (simp add: animation_result_of_def)
  qed
  have "process_with_nvidia_sdk env wav_file = animation_result_of wav_file ?fs"
    using assms collect_frames_responses[of responses "[]"]
    by (simp add: process_with_nvidia_sdk_def)
  with res len show ?thesis by auto
qed

text \<open>The file \<^verbatim>\<open>a.wav\<close> of the sample workspace: three frames out of four responses, the
  largest time code in the middle; and a service that answers no animation data.\<close>

theorem result_counts_frames_and_max_time_code_witness:
  "(\<exists>result. process_with_nvidia_sdk demo_env [''ws'', ''audio'', ''a.wav''] = Inr result
      \<and> frames result =
           [\<lparr>time_code = 0, blendshape_weights = [1 / 2, 1 / 4]\<rparr>,
            \<lparr>time_code = 3, blendshape_weights = [1, 0]\<rparr>,
            \<lparr>time_code = 1, blendshape_weights = [0, 0]\<rparr>]
      \<and> frame_count result = 3 \<and> duration result = 3)
   \<and> (\<exists>result. process_with_nvidia_sdk
          (demo_env\<lparr>process_audio_stream := \<lambda>_. [StreamResponse silent_response]\<rparr>)
          [''ws'', ''audio'', ''a.wav''] = Inr result
      \<and> frames result = [] \<and> frame_count result = 0 \<and> duration result = 0)"
proof -
  have ex: "List.map_filter (\<lambda>r. map_option extract_frame (response_animation_data r))
          [weights_response 0 [1 / 2, 1 / 4], silent_response, weights_response 3 [1, 0],
           weights_response 1 [0, 0]] =
        [\<lparr>time_code = 0, blendshape_weights = [1 / 2, 1 / 4]\<rparr>,
         \<lparr>time_code = 3, blendshape_weights = [1, 0]\<rparr>,
         \<lparr>time_code = 1, blendshape_weights = [0, 0]\<rparr>]"
    by (simp add: map_filter_simps weights_response_def silent_response_def extract_frame_def)
  have cnt: "filter (\<lambda>r. response_animation_data r \<noteq> None)
          [weights_response 0 [1 / 2, 1 / 4], silent_response, weights_response 3 [1, 0],
           weights_response 1 [0, 0]] =
        [weights_response 0 [1 / 2, 1 / 4], weights_response 3 [1, 0], weights_response 1 [0, 0]]"
    by (simp add: weights_response_def silent_response_def)
  let ?quiet = "demo_env\<lparr>process_audio_stream := \<lambda>_. [StreamResponse silent_response]\<rparr>"
  have r: "read_bytes ?quiet [''ws'', ''audio'', ''a.wav''] = Inr [1]"
    by (simp add: demo_env_def path_name_def)
  have q: "process_audio_stream ?quiet (build_requests [1]) = map StreamResponse [silent_response]"
    by simp
  from result_counts_frames_and_max_time_code [OF demo_read_a demo_stream_ok] have a: "\<exists>result.
      process_with_nvidia_sdk demo_env [''ws'', ''audio'', ''a.wav''] = Inr result
      \<and> frames result =
           [\<lparr>time_code = 0, blendshape_weights = [1 / 2, 1 / 4]\<rparr>,
            \<lparr>time_code = 3, blendshape_weights = [1, 0]\<rparr>,
            \<lparr>time_code = 1, blendshape_weights = [0, 0]\<rparr>]
      \<and> frame_count result = 3 \<and> duration result = 3"
    unfolding ex cnt by auto
  from result_counts_frames_and_max_time_code [OF r q] have b: "\<exists>result. process_with_nvidia_sdk ?quiet [''ws'', ''audio'', ''a.wav''] = Inr result
      \<and> frames result = [] \<and> frame_count result = 0 \<and> duration result = 0"
    by (auto simp: map_filter_simps silent_response_def)
  from a b show ?thesis by blast
qed

text \<open>
  Claim C5. When the stream fails after any number of responses, processing the file
  ends in the error of the transport and returns no result; the frames collected before
  the failure are not returned.
\<close>

theorem transport_failure_returns_no_result:
  assumes "read_bytes env wav_file = Inr audio_data"
    and "process_audio_stream env (build_requests audio_data) =
           map StreamResponse responses @ StreamFailure e # rest"
  shows "process_with_nvidia_sdk env wav_file = Inl (AioRpcError e)"
  using assms by (simp add: process_with_nvidia_sdk_def collect_frames_failure)

text \<open>The file \<^verbatim>\<open>b.wav\<close> of the sample workspace: one frame arrives, then the stream fails.\<close>

theorem transport_failure_returns_no_result_witness:
  "process_with_nvidia_sdk demo_env [''ws'', ''audio'', ''b.wav''] = Inl (AioRpcError ''UNAVAILABLE'')"
  by (rule transport_failure_returns_no_result [OF demo_read_b demo_stream_fails])

subsection \<open>Empty audio\<close>

text \<open>
  Claim C6 as stated asks that a zero-length buffer be rejected with an error before any
  request is built. The source has no such check: with empty audio files, and a service
  that answers one response for each request message, processing returns a result with
  two frames, one for the header and one for the end marker that were sent.
\<close>

theorem empty_audio_is_processed:
  "read_bytes empty_audio_env [''ws'', ''audio'', ''a.wav''] = Inr []
   \<and> process_with_nvidia_sdk empty_audio_env [''ws'', ''audio'', ''a.wav''] =
       Inr \<lparr>source_file = [''ws'', ''audio'', ''a.wav''],
            frames = [\<lparr>time_code = 1, blendshape_weights = [1]\<rparr>,
                      \<lparr>time_code = 1, blendshape_weights = [1]\<rparr>],
            duration = 1, frame_count = 2, warning = None\<rparr>"
  by (simp add: empty_audio_env_def demo_env_def process_with_nvidia_sdk_def
      build_requests_empty weights_response_def extract_frame_def animation_result_of_def)

text \<open>
  Claim C6, amended. For a zero-length buffer the request sequence is the header followed
  directly by the end-of-stream marker, the exchange is opened with these two messages,
  and the result is aggregated from the responses as for any other input.
\<close>

theorem empty_audio_sends_header_and_end_marker:
  assumes "read_bytes env wav_file = Inr []"
  shows "build_requests [] = [Audio_stream_header stream_header, End_of_audio]
       \<and> process_with_nvidia_sdk env wav_file =
           (case collect_frames
                   (process_audio_stream env [Audio_stream_header stream_header, End_of_audio]) [] of
              Inl e \<Rightarrow> Inl e
            | Inr animation_frames \<Rightarrow> animation_result_of wav_file animation_frames)"
  using assms by (simp add: process_with_nvidia_sdk_def build_requests_empty)

text \<open>The file \<^verbatim>\<open>c.wav\<close> of the workspace with empty audio files.\<close>

theorem empty_audio_sends_header_and_end_marker_witness:
  "process_with_nvidia_sdk empty_audio_env [''ws'', ''audio'', ''c.wav''] =
       Inr \<lparr>source_file = [''ws'', ''audio'', ''c.wav''],
            frames = [\<lparr>time_code = 1, blendshape_weights = [1]\<rparr>,
                      \<lparr>time_code = 1, blendshape_weights = [1]\<rparr>],
            duration = 1, frame_count = 2, warning = None\<rparr>"
proof -
  have h: "read_bytes empty_audio_env [''ws'', ''audio'', ''c.wav''] = Inr []"
    by (simp add: empty_audio_env_def)
  have "process_audio_stream empty_audio_env [Audio_stream_header stream_header, End_of_audio] =
          [StreamResponse (weights_response 1 [1]), StreamResponse (weights_response 1 [1])]"
    by (simp add: empty_audio_env_def)
  with empty_audio_sends_header_and_end_marker [OF h] show ?thesis
    by (simp add: weights_response_def extract_frame_def animation_result_of_def)
qed

subsection \<open>The metadata record\<close>

text \<open>
  Claim C7. For every result the metadata record is built without an exception, in
  particular without a division by zero; \<open>frame_rate\<close> is \<open>frame_count / duration\<close>
  when the duration is positive and 0 otherwise, and \<open>blendshape_count\<close> is the number
  of weights of the first frame, or 0 when there is no frame.
\<close>

theorem metadata_frame_rate_and_blendshape_count:
  "\<exists>m. build_metadata animation_data base_name = Inr m
     \<and> frame_rate m =
         (if duration animation_data > 0
          then real (frame_count animation_data) / duration animation_data else 0)
     \<and> blendshape_count m =
         (case frames animation_data of [] \<Rightarrow> 0 | f # _ \<Rightarrow> length (blendshape_weights f))"
  by (cases "frames animation_data")
     (simp_all add: build_metadata_def py_truediv_def py_first_def)

text \<open>Two frames over a duration of 4, and the placeholder result without frames.\<close>

theorem metadata_frame_rate_and_blendshape_count_witness:
  "(\<exists>m. build_metadata
          \<lparr>source_file = [''ws'', ''audio'', ''a.wav''],
           frames = [\<lparr>time_code = 0, blendshape_weights = [1 / 2, 1 / 4]\<rparr>,
                     \<lparr>time_code = 4, blendshape_weights = [1]\<rparr>],
           duration = 4, frame_count = 2, warning = None\<rparr> ''a'' = Inr m
      \<and> frame_rate m = 1 / 2 \<and> blendshape_count m = 2)
   \<and> (\<exists>m. build_metadata (process_with_custom_grpc [''ws'', ''audio'', ''a.wav'']) ''a'' = Inr m
      \<and> frame_rate m = 0 \<and> blendshape_count m = 0)"
proof -
  let ?r = "\<lparr>source_file = [''ws'', ''audio'', ''a.wav''],
           frames = [\<lparr>time_code = 0, blendshape_weights = [1 / 2, 1 / 4]\<rparr>,
                     \<lparr>time_code = 4, blendshape_weights = [1]\<rparr>],
           duration = 4, frame_count = 2, warning = None\<rparr>"
  from metadata_frame_rate_and_blendshape_count [of ?r "''a''"] obtain m where
    m: "build_metadata ?r ''a'' = Inr m" "frame_rate m = 1 / 2" "blendshape_count m = 2"
    by auto
  from metadata_frame_rate_and_blendshape_count [of "process_with_custom_grpc [''ws'', ''audio'', ''a.wav'']" "''a''"] obtain m' where
    m': "build_metadata (process_with_custom_grpc [''ws'', ''audio'', ''a.wav'']) ''a'' = Inr m'"
      "frame_rate m' = 0" "blendshape_count m' = 0"
    by (auto simp: process_with_custom_grpc_def)
  from m m' show ?thesis by blast
qed

subsection \<open>The batch loop, and the sample workspace evaluated\<close>

lemma processing_order_append:
  "processing_order (xs @ ys) = processing_order xs @ processing_order ys"
  by (induction xs rule: processing_order.induct) simp_all

lemma process_files_assets:
  "fst (process_files env export_dir n i wav_files (generated_assets, logged)) =
     generated_assets @
     concat (map (\<lambda>wav_file. case process_file env export_dir wav_file of
                                Inl e \<Rightarrow> [] | Inr asset_files \<Rightarrow> asset_files) wav_files)"
  by (induction wav_files arbitrary: i generated_assets logged)
     (auto split: sum.splits)

lemma process_files_log_grows:
  "set logged \<subseteq> set (snd (process_files env export_dir n i wav_files (generated_assets, logged)))"
proof (induction wav_files arbitrary: i generated_assets logged)
  case Nil
  show ?case by simp
next
  case (Cons wav_file rest)
  show ?case
  proof (cases "process_file env export_dir wav_file")
    case (Inl e)
    with Cons[of "logged @ [Info_processing i n (path_name wav_file),
                           Error_failed_to_process (path_name wav_file) e]" "i + 1" generated_assets]
    show ?thesis by auto
  next
    case (Inr asset_files)
    with Cons[of "logged @ [Info_processing i n (path_name wav_file)]" "i + 1"
                "generated_assets @ asset_files"]
    show ?thesis by auto
  qed
qed

lemma process_files_failure_logged:
  assumes "wav_file \<in> set wav_files" "process_file env export_dir wav_file = Inl e"
  shows "Error_failed_to_process (path_name wav_file) e
           \<in> set (snd (process_files env export_dir n i wav_files (generated_assets, logged)))"
  using assms
proof (induction wav_files arbitrary: i generated_assets logged)
  case Nil
  then show ?case by simp
next
  case (Cons f rest)
  show ?case
  proof (cases "wav_file = f")
    case True
    with Cons.prems(2)
    have "process_files env export_dir n i (f # rest) (generated_assets, logged) =
          process_files env export_dir n (i + 1) rest
            (generated_assets, logged @ [Info_processing i n (path_name f),
                                         Error_failed_to_process (path_name f) e])"
      by simp
    moreover have "Error_failed_to_process (path_name f) e
        \<in> set (logged @ [Info_processing i n (path_name f),
                         Error_failed_to_process (path_name f) e])"
      by simp
    ultimately show ?thesis
      using True process_files_log_grows by (metis subsetD)
  next
    case False
    with Cons.prems have "wav_file \<in> set rest" by simp
    then show ?thesis
      using Cons.IH Cons.prems(2) by (cases "process_file env export_dir f") simp_all
  qed
qed

lemma process_files_order:
  "processing_order (snd (process_files env export_dir n i wav_files (generated_assets, logged))) =
     processing_order logged @ map path_name wav_files"
  by (induction wav_files arbitrary: i generated_assets logged)
     (auto simp: processing_order_append Let_def split: sum.splits)

lemma process_with_nvidia_sdk_glob:
  "process_with_nvidia_sdk (env\<lparr>glob_wav := g\<rparr>) wav_file = process_with_nvidia_sdk env wav_file"
  by (simp add: process_with_nvidia_sdk_def Let_def cong: sum.case_cong)

lemma generate_animation_assets_glob:
  "generate_animation_assets (env\<lparr>glob_wav := g\<rparr>) = generate_animation_assets env"
  by (simp add: fun_eq_iff generate_animation_assets_def export_as_usd_def export_as_json_def
      export_metadata_def Let_def)

lemma process_file_glob:
  "process_file (env\<lparr>glob_wav := g\<rparr>) = process_file env"
  by (simp add: fun_eq_iff process_file_def process_with_nvidia_sdk_glob
      generate_animation_assets_glob cong: sum.case_cong)

lemma process_files_glob:
  "process_files (env\<lparr>glob_wav := g\<rparr>) export_dir n i wav_files st =
     process_files env export_dir n i wav_files st"
proof (induction wav_files arbitrary: i st)
  case Nil
  show ?case by (cases st) simp
next
  case (Cons f rest)
  show ?case by (cases st) (simp add: process_file_glob Cons Let_def split: sum.splits)
qed

lemma sibling_le:
  fixes d :: path
  shows "(d @ [a] \<le> d @ [b]) = (a \<le> b)"
  by (induction d) (auto simp: le_less)

lemma demo_sort:
  "sort [[''ws'', ''audio'', ''c.wav''], [''ws'', ''audio'', ''a.wav''], [''ws'', ''audio'', ''b.wav'']]
     = [[''ws'', ''audio'', ''a.wav''], [''ws'', ''audio'', ''b.wav''], [''ws'', ''audio'', ''c.wav'']]"
  by simp

lemma demo_stems:
  "path_stem [''ws'', ''audio'', ''a.wav''] = ''a''"
  "path_stem [''ws'', ''audio'', ''b.wav''] = ''b''"
  "path_stem [''ws'', ''audio'', ''c.wav''] = ''c''"
  by (simp_all add: path_stem_def path_name_def rfind_def)

lemma demo_names:
  "path_name [''ws'', ''audio'', ''a.wav''] = ''a.wav''"
  "path_name [''ws'', ''audio'', ''b.wav''] = ''b.wav''"
  "path_name [''ws'', ''audio'', ''c.wav''] = ''c.wav''"
  by (simp_all add: path_name_def)

lemma demo_assets:
  "generate_animation_assets demo_env animation_data base_name export_dir =
     [export_dir @ [base_name @ ''_animation.usd''], export_dir @ [base_name @ ''_animation.json''],
      export_dir @ [base_name @ ''_metadata.json'']]"
proof -
  have "\<exists>m. build_metadata animation_data base_name = Inr m"
    by (cases "frames animation_data")
       (simp_all add: build_metadata_def py_truediv_def py_first_def)
  then show ?thesis
    by (auto simp: generate_animation_assets_def export_as_usd_def export_as_json_def
        export_metadata_def demo_env_def)
qed

lemma demo_sdk_a:
  "\<exists>r. process_with_nvidia_sdk demo_env [''ws'', ''audio'', ''a.wav''] = Inr r"
  by (simp add: process_with_nvidia_sdk_def demo_env_def demo_names build_requests_short
      weights_response_def silent_response_def animation_result_of_def)

lemma demo_sdk_c:
  "\<exists>r. process_with_nvidia_sdk demo_env [''ws'', ''audio'', ''c.wav''] = Inr r"
  by (simp add: process_with_nvidia_sdk_def demo_env_def demo_names build_requests_short
      weights_response_def silent_response_def animation_result_of_def)

lemma demo_sdk_b:
  "process_with_nvidia_sdk demo_env [''ws'', ''audio'', ''b.wav''] = Inl (AioRpcError ''UNAVAILABLE'')"
  by (simp add: process_with_nvidia_sdk_def demo_env_def demo_names build_requests_short
      weights_response_def)

lemma demo_file_a:
  "process_file demo_env [''ws'', ''unreal_assets''] [''ws'', ''audio'', ''a.wav''] =
     Inr [[''ws'', ''unreal_assets'', ''a_animation.usd''],
          [''ws'', ''unreal_assets'', ''a_animation.json''],
          [''ws'', ''unreal_assets'', ''a_metadata.json'']]"
proof -
  have "sdk_available demo_env" by (simp add: demo_env_def)
  with demo_sdk_a show ?thesis
    by (auto simp: process_file_def demo_assets demo_stems)
qed

lemma demo_file_c:
  "process_file demo_env [''ws'', ''unreal_assets''] [''ws'', ''audio'', ''c.wav''] =
     Inr [[''ws'', ''unreal_assets'', ''c_animation.usd''],
          [''ws'', ''unreal_assets'', ''c_animation.json''],
          [''ws'', ''unreal_assets'', ''c_metadata.json'']]"
proof -
  have "sdk_available demo_env" by (simp add: demo_env_def)
  with demo_sdk_c show ?thesis
    by (auto simp: process_file_def demo_assets demo_stems)
qed

lemma demo_file_b:
  "process_file demo_env [''ws'', ''unreal_assets''] [''ws'', ''audio'', ''b.wav''] =
     Inl (AioRpcError ''UNAVAILABLE'')"
proof -
  have "sdk_available demo_env" by (simp add: demo_env_def)
  then show ?thesis by (simp add: process_file_def demo_sdk_b)
qed

subsection \<open>The fallback path\<close>

lemma process_file_no_sdk:
  "\<not> sdk_available env \<Longrightarrow>
     process_file env export_dir wav_file =
       Inr (generate_animation_assets env (process_with_custom_grpc wav_file)
              (path_stem wav_file) export_dir)"
  by (simp add: process_file_def)

lemma generate_animation_assets_service:
  "generate_animation_assets (env\<lparr>read_bytes := rb, process_audio_stream := svc\<rparr>) =
     generate_animation_assets env"
  by (simp add: fun_eq_iff generate_animation_assets_def export_as_usd_def export_as_json_def
      export_metadata_def Let_def)

text \<open>
  Claim C9. The fallback path returns, for every file, the placeholder result: no frames,
  duration 0, frame count 0 and a warning. When the SDK is unavailable the outcome for a
  file is the export of this placeholder, whatever the file holds and whatever the
  service would answer: neither is consulted.
\<close>

theorem fallback_returns_placeholder:
  "frames (process_with_custom_grpc wav_file) = []
   \<and> duration (process_with_custom_grpc wav_file) = 0
   \<and> frame_count (process_with_custom_grpc wav_file) = 0
   \<and> warning (process_with_custom_grpc wav_file) \<noteq> None
   \<and> source_file (process_with_custom_grpc wav_file) = wav_file
   \<and> (\<not> sdk_available env \<longrightarrow>
        process_file env export_dir wav_file =
          Inr (generate_animation_assets env (process_with_custom_grpc wav_file)
                 (path_stem wav_file) export_dir)
        \<and> process_file (env\<lparr>read_bytes := rb, process_audio_stream := svc\<rparr>) export_dir wav_file =
            process_file env export_dir wav_file)"
  by (simp add: process_with_custom_grpc_def process_file_no_sdk
      generate_animation_assets_service)

text \<open>The file \<^verbatim>\<open>a.wav\<close> of the workspace without the SDK, also with an unreadable file and
  a failing service.\<close>

theorem fallback_returns_placeholder_witness:
  "process_file no_sdk_env [''ws'', ''unreal_assets''] [''ws'', ''audio'', ''a.wav''] =
     Inr [[''ws'', ''unreal_assets'', ''a_animation.usd''],
          [''ws'', ''unreal_assets'', ''a_animation.json''],
          [''ws'', ''unreal_assets'', ''a_metadata.json'']]
   \<and> process_file
         (no_sdk_env\<lparr>read_bytes := \<lambda>_. Inl (OSError ''unreadable''),
                     process_audio_stream := \<lambda>_. [StreamFailure ''UNAVAILABLE'']\<rparr>)
         [''ws'', ''unreal_assets''] [''ws'', ''audio'', ''a.wav''] =
       process_file no_sdk_env [''ws'', ''unreal_assets''] [''ws'', ''audio'', ''a.wav'']"
proof -
  have h: "\<not> sdk_available no_sdk_env" by (simp add: no_sdk_env_def)
  have "generate_animation_assets no_sdk_env
          (process_with_custom_grpc [''ws'', ''audio'', ''a.wav'']) ''a'' [''ws'', ''unreal_assets''] =
        [[''ws'', ''unreal_assets'', ''a_animation.usd''],
          [''ws'', ''unreal_assets'', ''a_animation.json''],
          [''ws'', ''unreal_assets'', ''a_metadata.json'']]"
    by (simp add: generate_animation_assets_def export_as_usd_def export_as_json_def
        export_metadata_def build_metadata_def process_with_custom_grpc_def no_sdk_env_def
        demo_env_def)
  with fallback_returns_placeholder [where wav_file = "[''ws'', ''audio'', ''a.wav'']" and env = no_sdk_env
      and export_dir = "[''ws'', ''unreal_assets'']"
      and rb = "\<lambda>_. Inl (OSError ''unreadable'')"
      and svc = "\<lambda>_. [StreamFailure ''UNAVAILABLE'']"] h
  show ?thesis by (simp add: demo_stems)
qed

subsection \<open>Failures and order in a batch\<close>

text \<open>
  Claim C8. Once the loop over the files of a workspace starts, the batch returns
  normally: its result is the list of the assets of every file whose processing
  succeeded, in processing order, and for every file whose processing failed the error
  is in the log. A failure neither ends the loop nor removes the assets of another file.
\<close>

theorem batch_isolates_file_failures:
  assumes "dir_exists env (workspace_path @ [''audio''])"
    and "glob_wav env (workspace_path @ [''audio'']) \<noteq> []"
    and "mkdir_ok env (workspace_path @ [''unreal_assets''])"
  shows "fst (process_workspace env workspace_path) =
           Inr (concat (map (\<lambda>wav_file.
                  case process_file env (workspace_path @ [''unreal_assets'']) wav_file of
                    Inl e \<Rightarrow> [] | Inr asset_files \<Rightarrow> asset_files)
                (sort (glob_wav env (workspace_path @ [''audio''])))))
       \<and> (\<forall>wav_file \<in> set (glob_wav env (workspace_path @ [''audio''])). \<forall>e.
            process_file env (workspace_path @ [''unreal_assets'']) wav_file = Inl e \<longrightarrow>
            Error_failed_to_process (path_name wav_file) e
              \<in> set (snd (process_workspace env workspace_path)))"
proof -
  let ?files = "sort (glob_wav env (workspace_path @ [''audio'']))"
  let ?run = "process_files env (workspace_path @ [''unreal_assets'']) (length ?files) 1 ?files
                ([], [Info_found (length ?files)])"
  have pw: "process_workspace env workspace_path =
              (Inr (fst ?run), snd ?run @ [Info_generated (length (fst ?run))])"
    using assms by (simp add: process_workspace_def Let_def case_prod_beta)
  have assets: "fst (process_workspace env workspace_path) = Inr (fst ?run)"
    by (simp add: pw)
  have logged: "set (snd ?run) \<subseteq> set (snd (process_workspace env workspace_path))"
    by (auto simp: pw)
  have "Error_failed_to_process (path_name wav_file) e
          \<in> set (snd (process_workspace env workspace_path))"
    if "wav_file \<in> set (glob_wav env (workspace_path @ [''audio'']))"
      and "process_file env (workspace_path @ [''unreal_assets'']) wav_file = Inl e"
    for wav_file e
  proof -
    from that(1) have "wav_file \<in> set ?files" by simp
    from process_files_failure_logged [OF this that(2)] logged show ?thesis by blast
  qed
  then show ?thesis
    unfolding assets by (simp add: process_files_assets)
qed

text \<open>The sample workspace: the stream of \<^verbatim>\<open>b.wav\<close> fails, the assets of \<^verbatim>\<open>a.wav\<close> and
  \<^verbatim>\<open>c.wav\<close> are returned.\<close>

theorem batch_isolates_file_failures_witness:
  "fst (process_workspace demo_env [''ws'']) =
     Inr [[''ws'', ''unreal_assets'', ''a_animation.usd''],
          [''ws'', ''unreal_assets'', ''a_animation.json''],
          [''ws'', ''unreal_assets'', ''a_metadata.json''],
          [''ws'', ''unreal_assets'', ''c_animation.usd''],
          [''ws'', ''unreal_assets'', ''c_animation.json''],
          [''ws'', ''unreal_assets'', ''c_metadata.json'']]
   \<and> Error_failed_to_process ''b.wav'' (AioRpcError ''UNAVAILABLE'')
        \<in> set (snd (process_workspace demo_env [''ws'']))"
proof -
  have h1: "dir_exists demo_env ([''ws''] @ [''audio''])"
    and h2: "glob_wav demo_env ([''ws''] @ [''audio'']) \<noteq> []"
    and h3: "mkdir_ok demo_env ([''ws''] @ [''unreal_assets''])"
    by (simp_all add: demo_env_def)
  have g: "glob_wav demo_env ([''ws''] @ [''audio'']) =
      [[''ws'', ''audio'', ''c.wav''], [''ws'', ''audio'', ''a.wav''], [''ws'', ''audio'', ''b.wav'']]"
    by (simp add: demo_env_def)
  note t = batch_isolates_file_failures [OF h1 h2 h3]
  from t have "fst (process_workspace demo_env [''ws'']) =
     Inr [[''ws'', ''unreal_assets'', ''a_animation.usd''],
          [''ws'', ''unreal_assets'', ''a_animation.json''],
          [''ws'', ''unreal_assets'', ''a_metadata.json''],
          [''ws'', ''unreal_assets'', ''c_animation.usd''],
          [''ws'', ''unreal_assets'', ''c_animation.json''],
          [''ws'', ''unreal_assets'', ''c_metadata.json'']]"
    unfolding g demo_sort by (simp add: demo_file_a demo_file_b demo_file_c)
  moreover from t have "Error_failed_to_process (path_name [''ws'', ''audio'', ''b.wav''])
          (AioRpcError ''UNAVAILABLE'') \<in> set (snd (process_workspace demo_env [''ws'']))"
    unfolding g using demo_file_b by simp
  ultimately show ?thesis by (simp add: demo_names)
qed

lemma sort_enumeration:
  fixes xs ys :: "path list"
  assumes "mset xs = mset ys"
  shows "sort xs = sort ys"
  by (rule properties_for_sort) (simp_all add: assms)

lemma process_workspace_enumeration:
  assumes "mset enumeration = mset (glob_wav env (workspace_path @ [''audio'']))"
  shows "process_workspace (env\<lparr>glob_wav := \<lambda>_. enumeration\<rparr>) workspace_path =
           process_workspace env workspace_path"
proof -
  have e: "(enumeration = []) = (glob_wav env (workspace_path @ [''audio'']) = [])"
    using assms by (metis mset_zero_iff)
  have s: "sort enumeration = sort (glob_wav env (workspace_path @ [''audio'']))"
    using assms by (rule sort_enumeration)
  show ?thesis
    by (simp add: process_workspace_def Let_def e s process_files_glob)
qed

lemma upt_shift: "[i..<i + Suc m] = i # [i + 1..<(i + 1) + m]"
  by (simp add: upt_conv_Cons)

lemma process_files_log:
  "snd (process_files env export_dir n i wav_files (generated_assets, logged)) =
     logged @
     concat (map (\<lambda>(k, wav_file).
                    Info_processing k n (path_name wav_file) #
                    (case process_file env export_dir wav_file of
                       Inl e \<Rightarrow> [Error_failed_to_process (path_name wav_file) e]
                     | Inr asset_files \<Rightarrow> []))
               (zip [i..<i + length wav_files] wav_files))"
proof (induction wav_files arbitrary: i generated_assets logged)
  case Nil
  show ?case by simp
next
  case (Cons f rest)
  have z: "zip [i..<i + length (f # rest)] (f # rest) =
             (i, f) # zip [i + 1..<(i + 1) + length rest] rest"
    using upt_shift [of i "length rest"] by simp
  show ?case
  proof (cases "process_file env export_dir f")
    case (Inl e)
    then show ?thesis
      unfolding z
      using Cons [of "i + 1" generated_assets
                     "logged @ [Info_processing i n (path_name f),
                                Error_failed_to_process (path_name f) e]"]
      by simp
  next
    case (Inr asset_files)
    then show ?thesis
      unfolding z
      using Cons [of "i + 1" "generated_assets @ asset_files"
                     "logged @ [Info_processing i n (path_name f)]"]
      by simp
  qed
qed

text \<open>
  Claim C10. The files are processed in the sorted order of the paths that the directory
  listing returned, which for the files of one directory is the lexicographic order of
  their names. The whole run follows that order: the returned assets are those of the
  sorted files one after the other, and the log holds, for each sorted file in turn, its
  announcement with its position followed by its failure record if its processing failed.
  A listing that enumerates the same files in another order gives the same run, assets
  and log included.
\<close>

theorem batch_order_sorted_and_deterministic:
  assumes "dir_exists env (workspace_path @ [''audio''])"
    and "glob_wav env (workspace_path @ [''audio'']) \<noteq> []"
    and "mkdir_ok env (workspace_path @ [''unreal_assets''])"
    and "\<forall>wav_file \<in> set (glob_wav env (workspace_path @ [''audio''])).
           \<exists>name. wav_file = (workspace_path @ [''audio'']) @ [name]"
    and "mset enumeration = mset (glob_wav env (workspace_path @ [''audio'']))"
  shows "processing_order (snd (process_workspace env workspace_path)) =
           map path_name (sort (glob_wav env (workspace_path @ [''audio''])))
       \<and> sorted (processing_order (snd (process_workspace env workspace_path)))
       \<and> process_workspace (env\<lparr>glob_wav := \<lambda>_. enumeration\<rparr>) workspace_path =
           process_workspace env workspace_path
       \<and> fst (process_workspace env workspace_path) =
           Inr (concat (map (\<lambda>wav_file.
                  case process_file env (workspace_path @ [''unreal_assets'']) wav_file of
                    Inl e \<Rightarrow> [] | Inr asset_files \<Rightarrow> asset_files)
                (sort (glob_wav env (workspace_path @ [''audio''])))))
       \<and> snd (process_workspace env workspace_path) =
           Info_found (length (glob_wav env (workspace_path @ [''audio'']))) #
           concat (map (\<lambda>(i, wav_file).
                     Info_processing i (length (glob_wav env (workspace_path @ [''audio''])))
                       (path_name wav_file) #
                     (case process_file env (workspace_path @ [''unreal_assets'']) wav_file of
                        Inl e \<Rightarrow> [Error_failed_to_process (path_name wav_file) e]
                      | Inr asset_files \<Rightarrow> []))
                  (zip [1..<1 + length (glob_wav env (workspace_path @ [''audio'']))]
                       (sort (glob_wav env (workspace_path @ [''audio''])))))
           @ [Info_generated (length (concat (map (\<lambda>wav_file.
                  case process_file env (workspace_path @ [''unreal_assets'']) wav_file of
                    Inl e \<Rightarrow> [] | Inr asset_files \<Rightarrow> asset_files)
                (sort (glob_wav env (workspace_path @ [''audio'']))))))]"
proof -
  let ?audio = "workspace_path @ [''audio'']"
  let ?files = "sort (glob_wav env ?audio)"
  let ?run = "process_files env (workspace_path @ [''unreal_assets'']) (length ?files) 1 ?files
                ([], [Info_found (length ?files)])"
  have pw: "process_workspace env workspace_path =
              (Inr (fst ?run), snd ?run @ [Info_generated (length (fst ?run))])"
    using assms(1-3) by (simp add: process_workspace_def Let_def case_prod_beta)
  have order: "processing_order (snd (process_workspace env workspace_path)) =
                 map path_name ?files"
    by (simp add: pw processing_order_append process_files_order)
  have "sorted_wrt (\<lambda>p q. path_name p \<le> path_name q) ?files"
  proof (rule sorted_wrt_mono_rel [where P = "(\<le>)"])
    fix p q
    assume "p \<in> set ?files" "q \<in> set ?files" "p \<le> q"
    then have "p \<in> set (glob_wav env ?audio)" "q \<in> set (glob_wav env ?audio)"
      by simp_all
    with assms(4) obtain a b where pq: "p = ?audio @ [a]" "q = ?audio @ [b]"
      by blast
    from \<open>p \<le> q\<close> have "a \<le> b"
      unfolding pq by (simp only: sibling_le)
    moreover have "path_name p = a" "path_name q = b"
      by (simp_all add: pq path_name_def)
    ultimately show "path_name p \<le> path_name q" by simp
  next
    show "sorted_wrt (\<le>) ?files" by simp
  qed
  then have sorted_names: "sorted (map path_name ?files)" by (simp add: sorted_map)
  have assets: "fst (process_workspace env workspace_path) =
           Inr (concat (map (\<lambda>wav_file.
                  case process_file env (workspace_path @ [''unreal_assets'']) wav_file of
                    Inl e \<Rightarrow> [] | Inr asset_files \<Rightarrow> asset_files) ?files))"
    by (simp add: pw process_files_assets)
  have records: "snd (process_workspace env workspace_path) =
           Info_found (length (glob_wav env ?audio)) #
           concat (map (\<lambda>(i, wav_file).
                     Info_processing i (length (glob_wav env ?audio)) (path_name wav_file) #
                     (case process_file env (workspace_path @ [''unreal_assets'']) wav_file of
                        Inl e \<Rightarrow> [Error_failed_to_process (path_name wav_file) e]
                      | Inr asset_files \<Rightarrow> []))
                  (zip [1..<1 + length (glob_wav env ?audio)] ?files))
           @ [Info_generated (length (concat (map (\<lambda>wav_file.
                  case process_file env (workspace_path @ [''unreal_assets'']) wav_file of
                    Inl e \<Rightarrow> [] | Inr asset_files \<Rightarrow> asset_files) ?files)))]"
    using process_files_log [of env "workspace_path @ [''unreal_assets'']" "length ?files" 1
        ?files "[]" "[Info_found (length ?files)]"]
    by (simp add: pw process_files_assets)
  from order sorted_names process_workspace_enumeration [OF assms(5)] assets records
  show ?thesis by (intro conjI) simp_all
qed

text \<open>The sample workspace, listed as c, a, b and as b, c, a: the assets of a, then
  those of c; a announced, b announced and failed, c announced.\<close>

theorem batch_order_sorted_and_deterministic_witness:
  "process_workspace demo_env [''ws''] =
     (Inr [[''ws'', ''unreal_assets'', ''a_animation.usd''],
           [''ws'', ''unreal_assets'', ''a_animation.json''],
           [''ws'', ''unreal_assets'', ''a_metadata.json''],
           [''ws'', ''unreal_assets'', ''c_animation.usd''],
           [''ws'', ''unreal_assets'', ''c_animation.json''],
           [''ws'', ''unreal_assets'', ''c_metadata.json'']],
      [Info_found 3,
       Info_processing 1 3 ''a.wav'',
       Info_processing 2 3 ''b.wav'',
       Error_failed_to_process ''b.wav'' (AioRpcError ''UNAVAILABLE''),
       Info_processing 3 3 ''c.wav'',
       Info_generated 6])
   \<and> processing_order (snd (process_workspace demo_env [''ws''])) =
       [''a.wav'', ''b.wav'', ''c.wav'']
   \<and> process_workspace
        (demo_env\<lparr>glob_wav := \<lambda>_. [[''ws'', ''audio'', ''b.wav''], [''ws'', ''audio'', ''c.wav''],
                                     [''ws'', ''audio'', ''a.wav'']]\<rparr>) [''ws''] =
      process_workspace demo_env [''ws'']"
proof -
  have g: "glob_wav demo_env ([''ws''] @ [''audio'']) =
      [[''ws'', ''audio'', ''c.wav''], [''ws'', ''audio'', ''a.wav''], [''ws'', ''audio'', ''b.wav'']]"
    by (simp add: demo_env_def)
  have h1: "dir_exists demo_env ([''ws''] @ [''audio''])"
    and h2: "glob_wav demo_env ([''ws''] @ [''audio'']) \<noteq> []"
    and h3: "mkdir_ok demo_env ([''ws''] @ [''unreal_assets''])"
    by (simp_all add: demo_env_def)
  have h4: "\<forall>wav_file \<in> set (glob_wav demo_env ([''ws''] @ [''audio''])).
           \<exists>name. wav_file = ([''ws''] @ [''audio'']) @ [name]"
    unfolding g by simp
  have h5: "mset [[''ws'', ''audio'', ''b.wav''], [''ws'', ''audio'', ''c.wav''],
                  [''ws'', ''audio'', ''a.wav'']] =
            mset (glob_wav demo_env ([''ws''] @ [''audio'']))"
    unfolding g by (simp add: add.commute)
  have u: "[1..<1 + length [x, y, z]] = [1, 2, 3]" for x y z :: path
    by (simp add: upt_conv_Cons)
  note t = batch_order_sorted_and_deterministic [OF h1 h2 h3 h4 h5]
  note t_order = t [THEN conjunct1]
    and t_same = t [THEN conjunct2, THEN conjunct2, THEN conjunct1]
    and t_assets = t [THEN conjunct2, THEN conjunct2, THEN conjunct2, THEN conjunct1]
    and t_log = t [THEN conjunct2, THEN conjunct2, THEN conjunct2, THEN conjunct2]
  from t_assets have a: "fst (process_workspace demo_env [''ws'']) =
      Inr [[''ws'', ''unreal_assets'', ''a_animation.usd''],
           [''ws'', ''unreal_assets'', ''a_animation.json''],
           [''ws'', ''unreal_assets'', ''a_metadata.json''],
           [''ws'', ''unreal_assets'', ''c_animation.usd''],
           [''ws'', ''unreal_assets'', ''c_animation.json''],
           [''ws'', ''unreal_assets'', ''c_metadata.json'']]"
    unfolding g demo_sort by (simp add: demo_file_a demo_file_b demo_file_c)
  from t_log have b: "snd (process_workspace demo_env [''ws'']) =
      [Info_found 3,
       Info_processing 1 3 ''a.wav'',
       Info_processing 2 3 ''b.wav'',
       Error_failed_to_process ''b.wav'' (AioRpcError ''UNAVAILABLE''),
       Info_processing 3 3 ''c.wav'',
       Info_generated 6]"
    unfolding g demo_sort u by (simp add: demo_file_a demo_file_b demo_file_c demo_names)
  from t_order have c: "processing_order (snd (process_workspace demo_env [''ws''])) =
       [''a.wav'', ''b.wav'', ''c.wav'']"
    unfolding g demo_sort by (simp add: demo_names)
  from t_same have d: "process_workspace
        (demo_env\<lparr>glob_wav := \<lambda>_. [[''ws'', ''audio'', ''b.wav''], [''ws'', ''audio'', ''c.wav''],
                                     [''ws'', ''audio'', ''a.wav'']]\<rparr>) [''ws''] =
      process_workspace demo_env [''ws'']" .
  from a b have "process_workspace demo_env [''ws''] =
     (Inr [[''ws'', ''unreal_assets'', ''a_animation.usd''],
           [''ws'', ''unreal_assets'', ''a_animation.json''],
           [''ws'', ''unreal_assets'', ''a_metadata.json''],
           [''ws'', ''unreal_assets'', ''c_animation.usd''],
           [''ws'', ''unreal_assets'', ''c_animation.json''],
           [''ws'', ''unreal_assets'', ''c_metadata.json'']],
      [Info_found 3,
       Info_processing 1 3 ''a.wav'',
       Info_processing 2 3 ''b.wav'',
       Error_failed_to_process ''b.wav'' (AioRpcError ''UNAVAILABLE''),
       Info_processing 3 3 ''c.wav'',
       Info_generated 6])"
    by (simp add: prod_eq_iff)
  with c d show ?thesis by blast
qed

end
